theory Spec2Isabelle
  imports Main
begin


section \<open>Fibonacci heap (FibonacciHeap.py): data model\<close>

text \<open>
  Priorities are Python numbers. \<^verbatim>\<open>delete\<close> decreases a key to \<^verbatim>\<open>-np.inf\<close>, so the
  priority type is the integers extended by negative infinity.
\<close>

datatype prio = NegInf | Num int

instantiation prio :: linorder
begin

fun less_eq_prio :: "prio \<Rightarrow> prio \<Rightarrow> bool" where
  "less_eq_prio NegInf _ = True"
| "less_eq_prio (Num a) NegInf = False"
| "less_eq_prio (Num a) (Num b) = (a \<le> b)"

definition less_prio :: "prio \<Rightarrow> prio \<Rightarrow> bool" where
  "less_prio x y = (x \<le> y \<and> \<not> y \<le> (x::prio))"

instance
proof
  fix x y z :: prio
  show "(x < y) = (x \<le> y \<and> \<not> y \<le> x)" by (simp add: less_prio_def)
  show "x \<le> x" by (cases x) simp_all
  show "x \<le> y \<Longrightarrow> y \<le> z \<Longrightarrow> x \<le> z"
    by (cases x; cases y; cases z) simp_all
  show "x \<le> y \<Longrightarrow> y \<le> x \<Longrightarrow> x = y"
    by (cases x; cases y) simp_all
  show "x \<le> y \<or> y \<le> x"
    by (cases x; cases y) auto
qed

end

text \<open>
  The exceptions the module can raise. \<open>FormatError\<close> stands for the exception of a failed
  \<^verbatim>\<open>%d\<close> conversion (TypeError in Python 2, OverflowError in Python 3).
\<close>

datatype error =
  ValueError | OverflowError | FormatError | AttributeError | IndexError | AssertionError

text \<open>
  Objects of class \<^verbatim>\<open>Element\<close> live in a store addressed by references. \<^verbatim>\<open>left\<close> and
  \<^verbatim>\<open>right\<close> are never \<^verbatim>\<open>None\<close> (a new element points at itself); \<^verbatim>\<open>child\<close> and
  \<^verbatim>\<open>parent\<close> may be \<^verbatim>\<open>None\<close>.
\<close>

type_synonym ref = nat

record 'a Element =
  obj :: 'a
  priority :: prio
  left :: ref
  right :: ref
  child :: "ref option"
  parent :: "ref option"
  degree :: int
  mark :: bool

text \<open>The object store: the elements allocated so far are those below \<open>nxt\<close>.\<close>

record 'a world =
  nodes :: "ref \<Rightarrow> 'a Element"
  nxt :: ref

text \<open>A \<^verbatim>\<open>FibonacciHeap\<close> object: the fields \<^verbatim>\<open>_size\<close> and \<^verbatim>\<open>_min\<close>.\<close>

record FibonacciHeap =
  heap_size :: int
  heap_min :: "ref option"

text \<open>
  A call either returns (\<open>Inr\<close>: the state and the value) or raises (\<open>Inl\<close>: the exception
  and the state at the raise, since Python keeps the mutations made before it).
\<close>

type_synonym 'a state = "'a world \<times> FibonacciHeap"

subsection \<open>Field assignments\<close>

definition set_priority :: "'a world \<Rightarrow> ref \<Rightarrow> prio \<Rightarrow> 'a world" where
  "set_priority w a v = w\<lparr>nodes := (nodes w)(a := (nodes w a)\<lparr>priority := v\<rparr>)\<rparr>"

definition set_left :: "'a world \<Rightarrow> ref \<Rightarrow> ref \<Rightarrow> 'a world" where
  "set_left w a v = w\<lparr>nodes := (nodes w)(a := (nodes w a)\<lparr>left := v\<rparr>)\<rparr>"

definition set_right :: "'a world \<Rightarrow> ref \<Rightarrow> ref \<Rightarrow> 'a world" where
  "set_right w a v = w\<lparr>nodes := (nodes w)(a := (nodes w a)\<lparr>right := v\<rparr>)\<rparr>"

definition set_child :: "'a world \<Rightarrow> ref \<Rightarrow> ref option \<Rightarrow> 'a world" where
  "set_child w a v = w\<lparr>nodes := (nodes w)(a := (nodes w a)\<lparr>child := v\<rparr>)\<rparr>"

definition set_parent :: "'a world \<Rightarrow> ref \<Rightarrow> ref option \<Rightarrow> 'a world" where
  "set_parent w a v = w\<lparr>nodes := (nodes w)(a := (nodes w a)\<lparr>parent := v\<rparr>)\<rparr>"

definition set_degree :: "'a world \<Rightarrow> ref \<Rightarrow> int \<Rightarrow> 'a world" where
  "set_degree w a v = w\<lparr>nodes := (nodes w)(a := (nodes w a)\<lparr>degree := v\<rparr>)\<rparr>"

definition set_mark :: "'a world \<Rightarrow> ref \<Rightarrow> bool \<Rightarrow> 'a world" where
  "set_mark w a v = w\<lparr>nodes := (nodes w)(a := (nodes w a)\<lparr>mark := v\<rparr>)\<rparr>"

text \<open>\<^verbatim>\<open>Element.__init__\<close>: a fresh object whose sibling links point at itself.\<close>

definition Element_init :: "'a world \<Rightarrow> 'a \<Rightarrow> prio \<Rightarrow> 'a world \<times> ref" where
  "Element_init w x p =
     (w\<lparr>nodes := (nodes w)(nxt w :=
          \<lparr>obj = x, priority = p, left = nxt w, right = nxt w, child = None,
           parent = None, degree = 0, mark = False\<rparr>),
        nxt := Suc (nxt w)\<rparr>, nxt w)"

text \<open>\<^verbatim>\<open>FibonacciHeap.__init__\<close>.\<close>

definition FibonacciHeap_init :: FibonacciHeap where
  "FibonacciHeap_init = \<lparr>heap_size = 0, heap_min = None\<rparr>"

section \<open>Root list surgery\<close>

text \<open>
  \<^verbatim>\<open>_doublylinkedlist_insert(head, y)\<close>: the tuple assignment evaluates its right-hand side
  first and then assigns \<^verbatim>\<open>tail.left\<close>, \<^verbatim>\<open>head.right\<close>, \<^verbatim>\<open>y.left\<close>, \<^verbatim>\<open>y.right\<close> in this order.
\<close>

definition doublylinkedlist_insert :: "'a world \<Rightarrow> ref option \<Rightarrow> ref \<Rightarrow> 'a world" where
  "doublylinkedlist_insert w head y =
     (case head of
        None \<Rightarrow> w
      | Some h \<Rightarrow>
          (let tail = right (nodes w h)
           in set_right (set_left (set_right (set_left w tail y) h y) y h) y tail))"

text \<open>\<^verbatim>\<open>_insert_to_root_list(elem)\<close>.\<close>

definition insert_to_root_list :: "'a state \<Rightarrow> ref \<Rightarrow> 'a state" where
  "insert_to_root_list s elem =
     (let w = fst s; h = snd s;
          w1 = (if parent (nodes w elem) \<noteq> None then set_parent w elem None else w)
      in case heap_min h of
           Some m \<Rightarrow> (doublylinkedlist_insert w1 (Some m) elem, h)
         | None \<Rightarrow> (w1, h\<lparr>heap_min := Some elem\<rparr>))"

text \<open>
  \<^verbatim>\<open>_remove_from_root_list(z)\<close>. The assertion comes first. \<^verbatim>\<open>z.right.left = z.left\<close> is
  evaluated after \<^verbatim>\<open>z.left.right = z.right\<close> has been stored.
\<close>

definition remove_from_root_list :: "'a state \<Rightarrow> ref \<Rightarrow> (error \<times> 'a state) + 'a state" where
  "remove_from_root_list s z =
     (let w = fst s; h = snd s
      in if parent (nodes w z) \<noteq> None then Inl (AssertionError, s)
         else if right (nodes w z) = z then Inr (w, h\<lparr>heap_min := None\<rparr>)
         else
           (let h1 = (if heap_min h = Some z then h\<lparr>heap_min := Some (right (nodes w z))\<rparr> else h);
                w1 = set_right w (left (nodes w z)) (right (nodes w z));
                w2 = set_left w1 (right (nodes w1 z)) (left (nodes w1 z));
                w3 = set_right (set_left w2 z z) z z
            in Inr (w3, h1)))"

section \<open>Public operations without loops\<close>

text \<open>\<^verbatim>\<open>insert(x, priority)\<close>: returns the reference to the new element.\<close>

definition insert_heap :: "'a state \<Rightarrow> 'a \<Rightarrow> prio \<Rightarrow> 'a state \<times> ref" where
  "insert_heap s x p =
     (let (w1, elem) = Element_init (fst s) x p;
          (w2, h2) = insert_to_root_list (w1, snd s) elem;
          h3 = (case heap_min h2 of
                  None \<Rightarrow> h2\<lparr>heap_min := Some elem\<rparr>
                | Some m \<Rightarrow>
                    if priority (nodes w2 m) > priority (nodes w2 elem)
                    then h2\<lparr>heap_min := Some elem\<rparr> else h2)
      in ((w2, h3\<lparr>heap_size := heap_size h3 + 1\<rparr>), elem))"

text \<open>\<^verbatim>\<open>min()\<close> and \<^verbatim>\<open>size()\<close>.\<close>

definition min_heap :: "FibonacciHeap \<Rightarrow> ref option" where
  "min_heap h = heap_min h"

definition size_heap :: "FibonacciHeap \<Rightarrow> int" where
  "size_heap h = heap_size h"

text \<open>\<^verbatim>\<open>_clear()\<close>.\<close>

definition clear :: "FibonacciHeap \<Rightarrow> FibonacciHeap" where
  "clear h = h\<lparr>heap_min := None, heap_size := 0\<rparr>"

text \<open>
  \<^verbatim>\<open>merge(heap)\<close> on the receiver \<open>self\<close> with the argument \<open>other\<close>, two distinct heap
  objects over the same store. The state is the store and both heap objects. When the
  receiver has a minimum, \<^verbatim>\<open>min_two.right\<close> is read; with \<^verbatim>\<open>min_two\<close> being \<^verbatim>\<open>None\<close> this
  raises AttributeError. The four-way assignment evaluates its right-hand side first and
  then assigns \<^verbatim>\<open>min_one.right\<close>, \<^verbatim>\<open>min_two.right.left\<close>, \<^verbatim>\<open>min_two.right\<close>,
  \<^verbatim>\<open>min_one_right.left\<close> in this order, each target read from the store as it then is.
\<close>

definition merge :: "'a world \<Rightarrow> FibonacciHeap \<Rightarrow> FibonacciHeap \<Rightarrow>
    (error \<times> 'a world \<times> FibonacciHeap \<times> FibonacciHeap) + ('a world \<times> FibonacciHeap \<times> FibonacciHeap)" where
  "merge w self other =
     (let min_one = heap_min self; min_two = min_heap other
      in case min_one of
           Some m1 \<Rightarrow>
             (let min_one_right = right (nodes w m1)
              in case min_two of
                   None \<Rightarrow> Inl (AttributeError, w, self, other)
                 | Some m2 \<Rightarrow>
                     if m2 \<noteq> right (nodes w m2) then
                       (let r2 = right (nodes w m2);
                            w1 = set_right w m1 r2;
                            w2 = set_left w1 (right (nodes w1 m2)) m1;
                            w3 = set_right w2 m2 min_one_right;
                            w4 = set_left w3 min_one_right m2
                        in Inr (w4, self\<lparr>heap_size := heap_size self + size_heap other\<rparr>,
                                clear other))
                     else
                       (let (w1, self1) = insert_to_root_list (w, self) m2
                        in Inr (w1, self1\<lparr>heap_size := heap_size self1 + size_heap other\<rparr>,
                                clear other)))
         | None \<Rightarrow>
             Inr (w, self\<lparr>heap_min := min_two, heap_size := heap_size self + size_heap other\<rparr>,
                  clear other))"

section \<open>Consolidation\<close>

text \<open>
  The slot table of \<^verbatim>\<open>_consolidate\<close> has
  \<^verbatim>\<open>int(np.ceil(np.log(self._size)/np.log(golden))+1)\<close> entries. The model evaluates the
  expression in exact arithmetic: \<open>ceil_log_phi n\<close> is the least \<open>k\<close> with
  \<open>\<phi> ^ k \<ge> n\<close>, decided over the integers through
  \<open>\<phi> ^ k = (L\<^sub>k + F\<^sub>k * sqrt 5) / 2\<close> with the Fibonacci and Lucas numbers \<open>F\<^sub>k\<close>, \<open>L\<^sub>k\<close>.
  numpy gives \<^verbatim>\<open>-inf\<close> for \<^verbatim>\<open>np.log(0)\<close> and \<^verbatim>\<open>nan\<close> for a negative argument, and
  \<^verbatim>\<open>int\<close> raises OverflowError on the first and ValueError on the second.
\<close>

fun ceil_log_phi_from :: "nat \<Rightarrow> int \<Rightarrow> int \<Rightarrow> int \<Rightarrow> nat \<Rightarrow> nat" where
  "ceil_log_phi_from 0 f l n k = k"
| "ceil_log_phi_from (Suc fuel) f l n k =
     (if 2 * n - l \<le> 0 \<or> (2 * n - l) * (2 * n - l) \<le> 5 * f * f then k
      else ceil_log_phi_from fuel ((f + l) div 2) ((5 * f + l) div 2) n (Suc k))"

definition ceil_log_phi :: "int \<Rightarrow> nat" where
  "ceil_log_phi n = ceil_log_phi_from (nat n) 0 2 n 0"

definition array_len :: "int \<Rightarrow> error + nat" where
  "array_len n =
     (if n < 0 then Inl ValueError
      else if n = 0 then Inl OverflowError
      else Inr (ceil_log_phi n + 1))"

text \<open>Python list indexing: a negative index counts from the end, anything else out of
  range raises IndexError.\<close>

definition py_index :: "'b list \<Rightarrow> int \<Rightarrow> error + nat" where
  "py_index xs i =
     (let n = int (length xs); j = (if i < 0 then n + i else i)
      in if 0 \<le> j \<and> j < n then Inr (nat j) else Inl IndexError)"

text \<open>\<^verbatim>\<open>_heap_link(y, x)\<close>: \<open>y\<close> becomes a child of \<open>x\<close>.\<close>

definition heap_link :: "'a world \<Rightarrow> ref \<Rightarrow> ref \<Rightarrow> 'a world" where
  "heap_link w y x =
     (let w1 = (case child (nodes w x) of
                  Some c \<Rightarrow> doublylinkedlist_insert w (Some c) y
                | None \<Rightarrow> set_child w x (Some y));
          w2 = set_parent w1 y (Some x);
          w3 = set_degree w2 x (degree (nodes w2 x) + 1)
      in set_mark w3 y False)"

text \<open>
  The first loop of \<^verbatim>\<open>_consolidate\<close>: \<^verbatim>\<open>while self._min: q.append(self._min);
  self._remove_from_root_list(self._min)\<close>. On a store whose root ring is not a ring the
  loop need not end, so the result is an option and \<open>None\<close> stands for not returning.
\<close>

partial_function (option) collect_roots ::
    "'a state \<Rightarrow> ref list \<Rightarrow> ((error \<times> 'a state) + ('a state \<times> ref list)) option" where
  "collect_roots s q =
     (case heap_min (snd s) of
        None \<Rightarrow> Some (Inr (s, q))
      | Some m \<Rightarrow>
          (case remove_from_root_list s m of
             Inl e \<Rightarrow> Some (Inl e)
           | Inr s' \<Rightarrow> collect_roots s' (q @ [m])))"

declare collect_roots.simps [code]

text \<open>
  The inner loop of \<^verbatim>\<open>_consolidate\<close> for one dequeued root \<open>x\<close> of degree \<open>d\<close>:
  \<^verbatim>\<open>while array[d] is not None\<close> links, clears the slot and carries on with \<open>d + 1\<close>; at the
  end \<^verbatim>\<open>array[d] = x\<close>. Reading \<^verbatim>\<open>array[d]\<close> beyond the table raises IndexError.
\<close>

function link_carry ::
    "'a world \<Rightarrow> ref option list \<Rightarrow> ref \<Rightarrow> int \<Rightarrow>
     (error \<times> 'a world) + ('a world \<times> ref option list)" where
  "link_carry w array x d =
     (case py_index array d of
        Inl e \<Rightarrow> Inl (e, w)
      | Inr i \<Rightarrow>
          (case array ! i of
             None \<Rightarrow> Inr (w, array[i := Some x])
           | Some y \<Rightarrow>
               (let x' = (if priority (nodes w x) > priority (nodes w y) then y else x);
                    y' = (if priority (nodes w x) > priority (nodes w y) then x else y)
                in link_carry (heap_link w y' x') (array[i := None]) x' (d + 1))))"
  by pat_completeness auto
termination
  by (relation "measure (\<lambda>(w, array, x, d). nat (int (length array) - d))")
     (auto simp: py_index_def Let_def split: if_splits)

text \<open>The second loop: \<^verbatim>\<open>while len(q): x = q.popleft(); d = x.degree; ...\<close>.\<close>

fun process_queue ::
    "'a world \<Rightarrow> ref option list \<Rightarrow> ref list \<Rightarrow>
     (error \<times> 'a world) + ('a world \<times> ref option list)" where
  "process_queue w array [] = Inr (w, array)"
| "process_queue w array (x # q) =
     (case link_carry w array x (degree (nodes w x)) of
        Inl e \<Rightarrow> Inl e
      | Inr (w', array') \<Rightarrow> process_queue w' array' q)"

text \<open>The last loop: every occupied slot goes back into the root list, and \<^verbatim>\<open>_min\<close> is
  the smallest of them.\<close>

fun rebuild_roots :: "'a state \<Rightarrow> ref option list \<Rightarrow> 'a state" where
  "rebuild_roots s [] = s"
| "rebuild_roots s (None # array) = rebuild_roots s array"
| "rebuild_roots s (Some elem # array) =
     (case heap_min (snd s) of
        None \<Rightarrow> rebuild_roots (fst s, (snd s)\<lparr>heap_min := Some elem\<rparr>) array
      | Some _ \<Rightarrow>
          (let (w1, h1) = insert_to_root_list s elem;
               h2 = (case heap_min h1 of
                       Some m \<Rightarrow>
                         if priority (nodes w1 elem) < priority (nodes w1 m)
                         then h1\<lparr>heap_min := Some elem\<rparr> else h1
                     | None \<Rightarrow> h1)
           in rebuild_roots (w1, h2) array))"

text \<open>\<^verbatim>\<open>_consolidate()\<close>.\<close>

definition consolidate :: "'a state \<Rightarrow> ((error \<times> 'a state) + 'a state) option" where
  "consolidate s =
     (case array_len (heap_size (snd s)) of
        Inl e \<Rightarrow> Some (Inl (e, s))
      | Inr n \<Rightarrow>
          (case collect_roots s [] of
             None \<Rightarrow> None
           | Some (Inl e) \<Rightarrow> Some (Inl e)
           | Some (Inr (s1, q)) \<Rightarrow>
               (case process_queue (fst s1) (replicate n None) q of
                  Inl (e, w) \<Rightarrow> Some (Inl (e, (w, snd s1)))
                | Inr (w2, array) \<Rightarrow> Some (Inr (rebuild_roots (w2, snd s1) array)))))"

section \<open>extract_min\<close>

text \<open>
  The promotion loop of \<^verbatim>\<open>extract_min\<close>, entered with the current child \<open>x\<close> of the
  minimum \<open>z\<close>: \<^verbatim>\<open>next_child = x.right; x.parent = None; self._insert_to_root_list(x);
  x = next_child; if x == z.child: z.child = None; break\<close>.
\<close>

partial_function (option) promote_children :: "'a state \<Rightarrow> ref \<Rightarrow> ref \<Rightarrow> 'a state option" where
  "promote_children s z x =
     (let next_child = right (nodes (fst s) x);
          s1 = insert_to_root_list (set_parent (fst s) x None, snd s) x
      in if Some next_child = child (nodes (fst s1) z)
         then Some (set_child (fst s1) z None, snd s1)
         else promote_children s1 z next_child)"

declare promote_children.simps [code]

text \<open>\<^verbatim>\<open>extract_min()\<close>: returns the reference to the removed minimum, or \<^verbatim>\<open>None\<close>.\<close>

definition extract_min ::
    "'a state \<Rightarrow> ((error \<times> 'a state) + ('a state \<times> ref option)) option" where
  "extract_min s =
     (case heap_min (snd s) of
        None \<Rightarrow> Some (Inr (s, None))
      | Some z \<Rightarrow>
          (case (case child (nodes (fst s) z) of
                   None \<Rightarrow> Some s
                 | Some x \<Rightarrow> promote_children s z x) of
             None \<Rightarrow> None
           | Some s1 \<Rightarrow>
               (let dec = (\<lambda>s'. (fst s', (snd s')\<lparr>heap_size := heap_size (snd s') - 1\<rparr>))
                in if right (nodes (fst s1) z) = z then
                     (case remove_from_root_list (fst s1, (snd s1)\<lparr>heap_min := None\<rparr>) z of
                        Inl e \<Rightarrow> Some (Inl e)
                      | Inr s2 \<Rightarrow> Some (Inr (dec s2, Some z)))
                   else
                     (case remove_from_root_list
                             (fst s1, (snd s1)\<lparr>heap_min := Some (right (nodes (fst s1) z))\<rparr>) z of
                        Inl e \<Rightarrow> Some (Inl e)
                      | Inr s2 \<Rightarrow>
                          (case consolidate s2 of
                             None \<Rightarrow> None
                           | Some (Inl e) \<Rightarrow> Some (Inl e)
                           | Some (Inr s3) \<Rightarrow> Some (Inr (dec s3, Some z)))))))"

section \<open>decrease_key and delete\<close>

text \<open>\<^verbatim>\<open>_cut(x, y)\<close>.\<close>

definition cut_heap :: "'a state \<Rightarrow> ref \<Rightarrow> ref \<Rightarrow> (error \<times> 'a state) + 'a state" where
  "cut_heap s x y =
     (let w = fst s
      in if parent (nodes w x) \<noteq> Some y then Inl (AssertionError, s)
         else
           (let w1 = (if right (nodes w x) = x then set_child w y None
                      else
                        (let wa = set_child w y (Some (right (nodes w x)));
                             wb = set_parent wa (right (nodes wa x)) (Some y);
                             wc = set_left wb (right (nodes wb x)) (left (nodes wb x))
                         in set_right wc (left (nodes wc x)) (right (nodes wc x))));
                (w2, h2) = insert_to_root_list (w1, snd s) x;
                w3 = set_degree w2 y (degree (nodes w2 y) - 1)
            in Inr (set_mark w3 x False, h2)))"

text \<open>\<^verbatim>\<open>_cascading_cut(y)\<close>: recursion up the parent links; \<open>None\<close> stands for not
  returning.\<close>

partial_function (option) cascading_cut ::
    "'a state \<Rightarrow> ref \<Rightarrow> ((error \<times> 'a state) + 'a state) option" where
  "cascading_cut s y =
     (case parent (nodes (fst s) y) of
        None \<Rightarrow> Some (Inr s)
      | Some z \<Rightarrow>
          if \<not> mark (nodes (fst s) y) then Some (Inr (set_mark (fst s) y True, snd s))
          else
            (case cut_heap s y z of
               Inl e \<Rightarrow> Some (Inl e)
             | Inr s' \<Rightarrow> cascading_cut s' z))"

declare cascading_cut.simps [code]

text \<open>
  \<^verbatim>\<open>decrease_key(x, new_priority)\<close>, statement by statement. The message of the ValueError
  is built with \<^verbatim>\<open>%d\<close> from both priorities; on an infinite float the conversion fails
  before the ValueError exists. After \<^verbatim>\<open>x.priority = new_priority\<close> come the cut
  (\<open>decrease_key_cut\<close>: \<^verbatim>\<open>if y is not None and x.priority < y.priority\<close>) and the update of
  the minimum (\<open>update_min\<close>), where \<^verbatim>\<open>self._min.priority\<close> raises AttributeError when
  \<^verbatim>\<open>_min\<close> is \<^verbatim>\<open>None\<close>.
\<close>

definition decrease_key_cut :: "'a state \<Rightarrow> ref \<Rightarrow> ((error \<times> 'a state) + 'a state) option" where
  "decrease_key_cut s x =
     (case parent (nodes (fst s) x) of
        None \<Rightarrow> Some (Inr s)
      | Some y \<Rightarrow>
          if priority (nodes (fst s) x) < priority (nodes (fst s) y) then
            (case cut_heap s x y of
               Inl e \<Rightarrow> Some (Inl e)
             | Inr s2 \<Rightarrow> cascading_cut s2 y)
          else Some (Inr s))"

definition update_min :: "'a state \<Rightarrow> ref \<Rightarrow> (error \<times> 'a state) + 'a state" where
  "update_min s x =
     (case heap_min (snd s) of
        None \<Rightarrow> Inl (AttributeError, s)
      | Some m \<Rightarrow>
          if priority (nodes (fst s) x) < priority (nodes (fst s) m)
          then Inr (fst s, (snd s)\<lparr>heap_min := Some x\<rparr>) else Inr s)"

definition decrease_key ::
    "'a state \<Rightarrow> ref \<Rightarrow> prio \<Rightarrow> ((error \<times> 'a state) + 'a state) option" where
  "decrease_key s x new_priority =
     (if new_priority \<ge> priority (nodes (fst s) x) then
        (if new_priority = NegInf \<or> priority (nodes (fst s) x) = NegInf
         then Some (Inl (FormatError, s))
         else Some (Inl (ValueError, s)))
      else
        (case decrease_key_cut (set_priority (fst s) x new_priority, snd s) x of
           None \<Rightarrow> None
         | Some (Inl e) \<Rightarrow> Some (Inl e)
         | Some (Inr s3) \<Rightarrow> Some (update_min s3 x)))"

text \<open>\<^verbatim>\<open>delete(x)\<close>: \<^verbatim>\<open>self.decrease_key(x, -np.inf); self.extract_min()\<close>.\<close>

definition delete :: "'a state \<Rightarrow> ref \<Rightarrow> ((error \<times> 'a state) + 'a state) option" where
  "delete s x =
     (case decrease_key s x NegInf of
        None \<Rightarrow> None
      | Some (Inl e) \<Rightarrow> Some (Inl e)
      | Some (Inr s1) \<Rightarrow>
          (case extract_min s1 of
             None \<Rightarrow> None
           | Some (Inl e) \<Rightarrow> Some (Inl e)
           | Some (Inr (s2, z)) \<Rightarrow> Some (Inr s2)))"

text \<open>\<^verbatim>\<open>union(heap1, heap2)\<close>: a new heap into which both arguments are merged.\<close>

definition union_heap :: "'a world \<Rightarrow> FibonacciHeap \<Rightarrow> FibonacciHeap \<Rightarrow>
    (error \<times> 'a world \<times> FibonacciHeap \<times> FibonacciHeap \<times> FibonacciHeap) +
    ('a world \<times> FibonacciHeap \<times> FibonacciHeap \<times> FibonacciHeap)" where
  "union_heap w heap1 heap2 =
     (case merge w FibonacciHeap_init heap1 of
        Inl (e, w1, heap, h1) \<Rightarrow> Inl (e, w1, heap, h1, heap2)
      | Inr (w1, heap, h1) \<Rightarrow>
          (case merge w1 heap heap2 of
             Inl (e, w2, heap', h2) \<Rightarrow> Inl (e, w2, heap', h1, h2)
           | Inr (w2, heap', h2) \<Rightarrow> Inr (w2, heap', h1, h2)))"

section \<open>Sequences of calls on one heap\<close>

datatype 'a op = Insert 'a prio | ExtractMin | DecreaseKey ref prio | Delete ref

fun step :: "'a state \<Rightarrow> 'a op \<Rightarrow> ((error \<times> 'a state) + 'a state) option" where
  "step s (Insert x p) = Some (Inr (fst (insert_heap s x p)))"
| "step s ExtractMin =
     (case extract_min s of
        None \<Rightarrow> None
      | Some (Inl e) \<Rightarrow> Some (Inl e)
      | Some (Inr (s', z)) \<Rightarrow> Some (Inr s'))"
| "step s (DecreaseKey x p) = decrease_key s x p"
| "step s (Delete x) = delete s x"

fun run :: "'a state \<Rightarrow> 'a op list \<Rightarrow> ((error \<times> 'a state) + 'a state) option" where
  "run s [] = Some (Inr s)"
| "run s (c # cs) =
     (case step s c of
        None \<Rightarrow> None
      | Some (Inl e) \<Rightarrow> Some (Inl e)
      | Some (Inr s') \<Rightarrow> run s' cs)"

section \<open>Concrete stores\<close>

text \<open>A store given by the list of its allocated elements; the cells beyond are blank.\<close>

definition blank_elem :: "ref \<Rightarrow> string Element" where
  "blank_elem a =
     \<lparr>obj = [], priority = Num 0, left = a, right = a, child = None, parent = None,
      degree = 0, mark = False\<rparr>"

definition mk_world :: "string Element list \<Rightarrow> string world" where
  "mk_world xs =
     \<lparr>nodes = (\<lambda>a. if a < length xs then xs ! a else blank_elem a), nxt = length xs\<rparr>"

text \<open>The priority of the element \<^verbatim>\<open>min()\<close> returns, if any.\<close>

definition min_priority :: "'a world \<Rightarrow> FibonacciHeap \<Rightarrow> prio option" where
  "min_priority w h = map_option (\<lambda>m. priority (nodes w m)) (min_heap h)"

text \<open>The scenario of the specification: heap1 holds (X,10), heap2 holds (Y,2) and (Z,7).\<close>

definition heap_X :: "string state" where
  "heap_X = fst (insert_heap (mk_world [], FibonacciHeap_init) ''X'' (Num 10))"

definition heap_YZ :: "string state" where
  "heap_YZ =
     fst (insert_heap (fst (insert_heap (fst heap_X, FibonacciHeap_init) ''Y'' (Num 2)))
            ''Z'' (Num 7))"

section \<open>Invariants\<close>


text \<open>The state a call leaves behind, whether it returned or raised.\<close>

definition final_state :: "(error \<times> 'a state) + 'a state \<Rightarrow> 'a state" where
  "final_state r = (case r of Inl (e, s) \<Rightarrow> s | Inr s \<Rightarrow> s)"


text \<open>The store and the two heap objects a call of \<^verbatim>\<open>merge\<close> leaves behind, whether it
  returned or raised.\<close>

definition merge_final ::
    "(error \<times> 'a world \<times> FibonacciHeap \<times> FibonacciHeap) +
     ('a world \<times> FibonacciHeap \<times> FibonacciHeap) \<Rightarrow> 'a world \<times> FibonacciHeap \<times> FibonacciHeap" where
  "merge_final r = (case r of Inl (e, st) \<Rightarrow> st | Inr st \<Rightarrow> st)"

text \<open>Every marked root of \<open>w'\<close> was a marked root of \<open>w\<close> already.\<close>

definition no_new_marked_root :: "'a world \<Rightarrow> 'a world \<Rightarrow> bool" where
  "no_new_marked_root w w' \<longleftrightarrow>
     nxt w' = nxt w \<and>
     (\<forall>a. parent (nodes w' a) = None \<and> mark (nodes w' a) \<longrightarrow>
          parent (nodes w a) = None \<and> mark (nodes w a))"

text \<open>A sequence of calls after which a root carries a mark.\<close>

definition marked_root_script :: "string op list" where
  "marked_root_script =
     [Insert ''a'' (Num 1), Insert ''b'' (Num 20), Insert ''c'' (Num 45),
      Insert ''d'' (Num 40), Insert ''e'' (Num 50), ExtractMin, DecreaseKey 4 (Num 25),
      ExtractMin]"

text \<open>The heap after the first six calls of that sequence: one tree of degree 2 rooted at
  node 1, node 0 extracted.\<close>

definition tree_state :: "string state" where
  "tree_state =
     (mk_world
        [\<lparr>obj = ''a'', priority = Num 1, left = 0, right = 0, child = None, parent = None,
           degree = 0, mark = False\<rparr>,
         \<lparr>obj = ''b'', priority = Num 20, left = 1, right = 1, child = Some 2, parent = None,
           degree = 2, mark = False\<rparr>,
         \<lparr>obj = ''c'', priority = Num 45, left = 3, right = 3, child = None, parent = Some 1,
           degree = 0, mark = False\<rparr>,
         \<lparr>obj = ''d'', priority = Num 40, left = 2, right = 2, child = Some 4, parent = Some 1,
           degree = 1, mark = False\<rparr>,
         \<lparr>obj = ''e'', priority = Num 50, left = 4, right = 4, child = None, parent = Some 3,
           degree = 0, mark = False\<rparr>],
      \<lparr>heap_size = 4, heap_min = Some 1\<rparr>)"

section \<open>Sequences of inserts\<close>

text \<open>The calls \<^verbatim>\<open>insert(x, p)\<close> for the pairs of a list, in order; \<open>inserted\<close> says that the
  elements allocated from \<open>n0\<close> on hold these pairs.\<close>

definition insert_all :: "'a state \<Rightarrow> ('a \<times> prio) list \<Rightarrow> 'a state" where
  "insert_all s xs = foldl (\<lambda>s (x, p). fst (insert_heap s x p)) s xs"

definition inserted :: "'a world \<Rightarrow> ref \<Rightarrow> ('a \<times> prio) list \<Rightarrow> bool" where
  "inserted w n0 xs \<longleftrightarrow>
     list_all (\<lambda>j. (obj (nodes w (n0 + j)), priority (nodes w (n0 + j))) = xs ! j) [0..<length xs]"

definition scenario_inserts :: "(string \<times> prio) list" where
  "scenario_inserts = [(''A'', Num 5), (''B'', Num 3), (''C'', Num 8)]"


text \<open>One element of priority 5 whose key has been decreased to \<^verbatim>\<open>-np.inf\<close>.\<close>

definition sunk_state :: "string state" where
  "sunk_state =
     final_state (the (decrease_key
       (fst (insert_heap (mk_world [], FibonacciHeap_init) ''a'' (Num 5))) 0 NegInf))"

section \<open>Evaluation on concrete stores\<close>

declare link_carry.simps [simp del]

lemma nodes_mk_world [simp]: "a < length xs \<Longrightarrow> nodes (mk_world xs) a = xs ! a"
  by (simp add: mk_world_def)

lemma nxt_mk_world [simp]: "nxt (mk_world xs) = length xs"
  by (simp add: mk_world_def)

lemma upd_mk_world:
  "a < length xs \<Longrightarrow>
   (mk_world xs)\<lparr>nodes := (nodes (mk_world xs))(a := e)\<rparr> = mk_world (xs[a := e])"
  by (auto simp: mk_world_def fun_eq_iff)

lemma set_mk_world [simp]:
  "a < length xs \<Longrightarrow> set_left (mk_world xs) a v = mk_world (xs[a := (xs ! a)\<lparr>left := v\<rparr>])"
  "a < length xs \<Longrightarrow> set_right (mk_world xs) a v = mk_world (xs[a := (xs ! a)\<lparr>right := v\<rparr>])"
  "a < length xs \<Longrightarrow> set_child (mk_world xs) a c = mk_world (xs[a := (xs ! a)\<lparr>child := c\<rparr>])"
  "a < length xs \<Longrightarrow> set_parent (mk_world xs) a c = mk_world (xs[a := (xs ! a)\<lparr>parent := c\<rparr>])"
  "a < length xs \<Longrightarrow> set_degree (mk_world xs) a d = mk_world (xs[a := (xs ! a)\<lparr>degree := d\<rparr>])"
  "a < length xs \<Longrightarrow> set_mark (mk_world xs) a m = mk_world (xs[a := (xs ! a)\<lparr>mark := m\<rparr>])"
  "a < length xs \<Longrightarrow> set_priority (mk_world xs) a p = mk_world (xs[a := (xs ! a)\<lparr>priority := p\<rparr>])"
  by (simp_all add: set_left_def set_right_def set_child_def set_parent_def set_degree_def
        set_mark_def set_priority_def upd_mk_world)

lemma Element_init_mk_world [simp]:
  "Element_init (mk_world xs) x p =
     (mk_world (xs @ [\<lparr>obj = x, priority = p, left = length xs, right = length xs,
                       child = None, parent = None, degree = 0, mark = False\<rparr>]), length xs)"
  by (auto simp: Element_init_def mk_world_def fun_eq_iff nth_append blank_elem_def)

lemmas eval_defs =
  insert_heap_def insert_to_root_list_def doublylinkedlist_insert_def FibonacciHeap_init_def
  extract_min_def remove_from_root_list_def consolidate_def array_len_def ceil_log_phi_def
  collect_roots.simps promote_children.simps cascading_cut.simps cut_heap_def decrease_key_def
  delete_def decrease_key_cut_def update_min_def heap_link_def link_carry.simps py_index_def less_prio_def merge_def min_heap_def
  size_heap_def clear_def min_priority_def union_heap_def

lemma heap_X_eq:
  "heap_X = (mk_world [\<lparr>obj = ''X'', priority = Num 10, left = 0, right = 0, child = None,
                         parent = None, degree = 0, mark = False\<rparr>],
             \<lparr>heap_size = 1, heap_min = Some 0\<rparr>)"
  by (simp add: heap_X_def eval_defs)

lemma heap_YZ_eq:
  "heap_YZ = (mk_world [\<lparr>obj = ''X'', priority = Num 10, left = 0, right = 0, child = None,
                          parent = None, degree = 0, mark = False\<rparr>,
                        \<lparr>obj = ''Y'', priority = Num 2, left = 2, right = 2, child = None,
                          parent = None, degree = 0, mark = False\<rparr>,
                        \<lparr>obj = ''Z'', priority = Num 7, left = 1, right = 1, child = None,
                          parent = None, degree = 0, mark = False\<rparr>],
              \<lparr>heap_size = 2, heap_min = Some 1\<rparr>)"
  by (simp add: heap_YZ_def heap_X_eq eval_defs eval_nat_numeral)

section \<open>Frame lemmas\<close>

lemma field_set [simp]:
  "obj (nodes (set_priority w a p) b) = obj (nodes w b)"
  "priority (nodes (set_priority w a p) b) = (if b = a then p else priority (nodes w b))"
  "left (nodes (set_priority w a p) b) = left (nodes w b)"
  "right (nodes (set_priority w a p) b) = right (nodes w b)"
  "child (nodes (set_priority w a p) b) = child (nodes w b)"
  "parent (nodes (set_priority w a p) b) = parent (nodes w b)"
  "degree (nodes (set_priority w a p) b) = degree (nodes w b)"
  "mark (nodes (set_priority w a p) b) = mark (nodes w b)"
  "obj (nodes (set_left w a l) b) = obj (nodes w b)"
  "priority (nodes (set_left w a l) b) = priority (nodes w b)"
  "left (nodes (set_left w a l) b) = (if b = a then l else left (nodes w b))"
  "right (nodes (set_left w a l) b) = right (nodes w b)"
  "child (nodes (set_left w a l) b) = child (nodes w b)"
  "parent (nodes (set_left w a l) b) = parent (nodes w b)"
  "degree (nodes (set_left w a l) b) = degree (nodes w b)"
  "mark (nodes (set_left w a l) b) = mark (nodes w b)"
  "obj (nodes (set_right w a r) b) = obj (nodes w b)"
  "priority (nodes (set_right w a r) b) = priority (nodes w b)"
  "left (nodes (set_right w a r) b) = left (nodes w b)"
  "right (nodes (set_right w a r) b) = (if b = a then r else right (nodes w b))"
  "child (nodes (set_right w a r) b) = child (nodes w b)"
  "parent (nodes (set_right w a r) b) = parent (nodes w b)"
  "degree (nodes (set_right w a r) b) = degree (nodes w b)"
  "mark (nodes (set_right w a r) b) = mark (nodes w b)"
  "obj (nodes (set_child w a c) b) = obj (nodes w b)"
  "priority (nodes (set_child w a c) b) = priority (nodes w b)"
  "left (nodes (set_child w a c) b) = left (nodes w b)"
  "right (nodes (set_child w a c) b) = right (nodes w b)"
  "child (nodes (set_child w a c) b) = (if b = a then c else child (nodes w b))"
  "parent (nodes (set_child w a c) b) = parent (nodes w b)"
  "degree (nodes (set_child w a c) b) = degree (nodes w b)"
  "mark (nodes (set_child w a c) b) = mark (nodes w b)"
  "obj (nodes (set_parent w a q) b) = obj (nodes w b)"
  "priority (nodes (set_parent w a q) b) = priority (nodes w b)"
  "left (nodes (set_parent w a q) b) = left (nodes w b)"
  "right (nodes (set_parent w a q) b) = right (nodes w b)"
  "child (nodes (set_parent w a q) b) = child (nodes w b)"
  "parent (nodes (set_parent w a q) b) = (if b = a then q else parent (nodes w b))"
  "degree (nodes (set_parent w a q) b) = degree (nodes w b)"
  "mark (nodes (set_parent w a q) b) = mark (nodes w b)"
  "obj (nodes (set_degree w a d) b) = obj (nodes w b)"
  "priority (nodes (set_degree w a d) b) = priority (nodes w b)"
  "left (nodes (set_degree w a d) b) = left (nodes w b)"
  "right (nodes (set_degree w a d) b) = right (nodes w b)"
  "child (nodes (set_degree w a d) b) = child (nodes w b)"
  "parent (nodes (set_degree w a d) b) = parent (nodes w b)"
  "degree (nodes (set_degree w a d) b) = (if b = a then d else degree (nodes w b))"
  "mark (nodes (set_degree w a d) b) = mark (nodes w b)"
  "obj (nodes (set_mark w a m) b) = obj (nodes w b)"
  "priority (nodes (set_mark w a m) b) = priority (nodes w b)"
  "left (nodes (set_mark w a m) b) = left (nodes w b)"
  "right (nodes (set_mark w a m) b) = right (nodes w b)"
  "child (nodes (set_mark w a m) b) = child (nodes w b)"
  "parent (nodes (set_mark w a m) b) = parent (nodes w b)"
  "degree (nodes (set_mark w a m) b) = degree (nodes w b)"
  "mark (nodes (set_mark w a m) b) = (if b = a then m else mark (nodes w b))"
  by (simp_all add: set_left_def set_right_def set_child_def set_parent_def set_degree_def
        set_mark_def set_priority_def)

lemma nxt_set [simp]:
  "nxt (set_left w a l) = nxt w"
  "nxt (set_right w a r) = nxt w"
  "nxt (set_child w a c) = nxt w"
  "nxt (set_parent w a c) = nxt w"
  "nxt (set_degree w a d) = nxt w"
  "nxt (set_mark w a m) = nxt w"
  "nxt (set_priority w a p) = nxt w"
  by (simp_all add: set_left_def set_right_def set_child_def set_parent_def set_degree_def
        set_mark_def set_priority_def)

lemma dll_frame [simp]:
  "parent (nodes (doublylinkedlist_insert w h0 y) a) = parent (nodes w a)"
  "mark (nodes (doublylinkedlist_insert w h0 y) a) = mark (nodes w a)"
  "nxt (doublylinkedlist_insert w h0 y) = nxt w"
  by (simp_all add: doublylinkedlist_insert_def Let_def split: option.splits)






lemma final_state_simps [simp]:
  "final_state (Inr s) = s"
  "final_state (Inl (e, s)) = s"
  by (simp_all add: final_state_def)

section \<open>merge\<close>

lemma merge_returns_sizes:
  assumes "merge w a b = Inr (w', a', b')"
  shows "size_heap a' = size_heap a + size_heap b \<and> size_heap b' = 0 \<and> min_heap b' = None"
  using assms
  by (auto simp: merge_def min_heap_def size_heap_def clear_def insert_to_root_list_def Let_def
      split: option.splits if_splits prod.splits)

lemma merge_keeps_min:
  assumes "heap_min a = Some m" "merge w a b = Inr (w', a', b')"
  shows "min_heap a' = Some m"
  using assms
  by (auto simp: merge_def min_heap_def insert_to_root_list_def Let_def
      split: option.splits if_splits prod.splits)

lemma merge_empty_argument:
  assumes "heap_min a = Some m" "heap_min b = None"
  shows "merge w a b = Inl (AttributeError, w, a, b)"
  using assms by (simp add: merge_def min_heap_def)

text \<open>
  C1. After \<^verbatim>\<open>A.merge(B)\<close> the minimum of \<open>A\<close> should be the smaller of the two minima. The
  code never compares the two: with heap1 = {(X,10)} and heap2 = {(Y,2),(Z,7)} the merged
  heap still reports X/10 although Y/2 is smaller.
\<close>

theorem merge_min_not_updated:
  "min_priority (fst heap_YZ) (snd heap_X) = Some (Num 10) \<and>
   min_priority (fst heap_YZ) (snd heap_YZ) = Some (Num 2) \<and>
   (case merge (fst heap_YZ) (snd heap_X) (snd heap_YZ) of
      Inr (w, a, b) \<Rightarrow> min_priority w a
    | Inl e \<Rightarrow> None) = Some (Num 10)"
  by (simp add: heap_X_eq heap_YZ_eq eval_defs eval_nat_numeral)

text \<open>
  C3. Merging an empty heap into a non-empty one should leave the receiver as it is. The
  code reads \<^verbatim>\<open>min_two.right\<close> with \<^verbatim>\<open>min_two\<close> being \<^verbatim>\<open>None\<close>: the call raises
  AttributeError, here with heap1 = {(X,10)} and a new empty heap; \<^verbatim>\<open>union\<close> of the two fails
  in the same way.
\<close>

theorem merge_empty_argument_raises:
  "merge (fst heap_X) (snd heap_X) FibonacciHeap_init =
     Inl (AttributeError, fst heap_X, snd heap_X, FibonacciHeap_init) \<and>
   union_heap (fst heap_X) (snd heap_X) FibonacciHeap_init =
     Inl (AttributeError, fst heap_X, snd heap_X, clear (snd heap_X), FibonacciHeap_init)"
  by (simp add: heap_X_eq eval_defs)

text \<open>
  C6. After \<^verbatim>\<open>A.merge(B)\<close> the size of \<open>A\<close> is the sum of the two sizes before the call and
  \<open>B\<close> is empty: \<^verbatim>\<open>size(B)\<close> is 0 and \<^verbatim>\<open>B.min()\<close> is \<^verbatim>\<open>None\<close>. \<open>A\<close> and \<open>B\<close> are two
  distinct heap objects, and \<open>B\<close> records emptiness as the heaps of this module do: when its
  \<^verbatim>\<open>_min\<close> is \<^verbatim>\<open>None\<close> its \<^verbatim>\<open>_size\<close> is 0. The statement is about the state the call leaves
  behind, whether it returned or raised: the one raise of \<^verbatim>\<open>merge\<close> (non-empty receiver,
  empty argument) comes before any update, where the sum is the size of \<open>A\<close> and \<open>B\<close> is empty
  already. In every other case the call returns.
\<close>

theorem merge_sizes_add:
  assumes "heap_min b = None \<Longrightarrow> heap_size b = 0"
  shows "(case merge_final (merge w a b) of
            (w', a', b') \<Rightarrow>
              size_heap a' = size_heap a + size_heap b \<and> size_heap b' = 0 \<and>
              min_heap b' = None) \<and>
         (heap_min a = None \<or> heap_min b \<noteq> None \<longrightarrow> (\<exists>st. merge w a b = Inr st))"
  using assms
  by (auto simp: merge_final_def merge_def min_heap_def size_heap_def clear_def
      insert_to_root_list_def Let_def split: option.splits if_splits prod.splits)

theorem merge_sizes_add_witness:
  "heap_min (snd heap_YZ) = Some 1 \<and>
   size_heap (snd heap_X) = 1 \<and> size_heap (snd heap_YZ) = 2 \<and>
   (case merge_final (merge (fst heap_YZ) (snd heap_X) (snd heap_YZ)) of
      (w', a', b') \<Rightarrow> size_heap a' = 3 \<and> size_heap b' = 0 \<and> min_heap b' = None) \<and>
   (\<exists>st. merge (fst heap_YZ) (snd heap_X) (snd heap_YZ) = Inr st)"
  using merge_sizes_add [where b = "snd heap_YZ" and w = "fst heap_YZ" and a = "snd heap_X"]
  by (simp add: heap_X_eq heap_YZ_eq size_heap_def)

section \<open>Marks of root nodes\<close>

lemma nnmr_refl [simp]: "no_new_marked_root w w"
  by (simp add: no_new_marked_root_def)













lemma tree_state_reached:
  "run (mk_world [], FibonacciHeap_init) (take 6 marked_root_script) = Some (Inr tree_state)"
  by (simp add: marked_root_script_def tree_state_def eval_defs eval_nat_numeral)



section \<open>insert and min\<close>

lemma insert_all_Nil [simp]: "insert_all s [] = s"
  by (simp add: insert_all_def)

lemma insert_all_snoc [simp]: "insert_all s (xs @ [(x, p)]) = fst (insert_heap (insert_all s xs) x p)"
  by (simp add: insert_all_def)

lemma insert_heap_effect:
  assumes "insert_heap s x p = ((w', h'), e)"
  shows "e = nxt (fst s)" "nxt w' = Suc (nxt (fst s))"
    "obj (nodes w' e) = x" "priority (nodes w' e) = p"
    "\<And>a. a \<noteq> e \<Longrightarrow> obj (nodes w' a) = obj (nodes (fst s) a)"
    "\<And>a. a \<noteq> e \<Longrightarrow> priority (nodes w' a) = priority (nodes (fst s) a)"
    "heap_size h' = heap_size (snd s) + 1"
    "heap_min (snd s) = None \<Longrightarrow> heap_min h' = Some e"
    "\<And>m. heap_min (snd s) = Some m \<Longrightarrow> m \<noteq> e \<Longrightarrow>
       heap_min h' = (if p < priority (nodes (fst s) m) then Some e else Some m)"
  using assms
  by (auto simp: insert_heap_def Element_init_def insert_to_root_list_def
      doublylinkedlist_insert_def Let_def split: option.splits if_splits)

lemma insert_all_inv:
  fixes xs :: "('a \<times> prio) list" and w0 :: "'a world"
  defines "s \<equiv> insert_all (w0, FibonacciHeap_init) xs"
  shows "nxt (fst s) = nxt w0 + length xs \<and>
         heap_size (snd s) = int (length xs) \<and>
         (\<forall>j < length xs. obj (nodes (fst s) (nxt w0 + j)) = fst (xs ! j) \<and>
                           priority (nodes (fst s) (nxt w0 + j)) = snd (xs ! j)) \<and>
         (xs = [] \<longrightarrow> heap_min (snd s) = None) \<and>
         (xs \<noteq> [] \<longrightarrow> (\<exists>m. heap_min (snd s) = Some m \<and> nxt w0 \<le> m \<and> m < nxt w0 + length xs \<and>
                         (\<forall>j < length xs. priority (nodes (fst s) m) \<le> snd (xs ! j))))"
  unfolding s_def
proof (induction xs rule: rev_induct)
  case Nil
  show ?case by (simp add: FibonacciHeap_init_def)
next
  case (snoc xp xs)
  obtain x p where xp: "xp = (x, p)" by (cases xp)
  let ?s = "insert_all (w0, FibonacciHeap_init) xs"
  define w' where "w' = fst (fst (insert_heap ?s x p))"
  define h' where "h' = snd (fst (insert_heap ?s x p))"
  define e where "e = snd (insert_heap ?s x p)"
  have ins: "insert_heap ?s x p = ((w', h'), e)"
    by (simp add: w'_def h'_def e_def)
  note eff = insert_heap_effect[OF ins]
  note IH = snoc.IH
  have n: "nxt (fst ?s) = nxt w0 + length xs"
    using IH[THEN conjunct1] .
  have sz: "heap_size (snd ?s) = int (length xs)"
    using IH[THEN conjunct2, THEN conjunct1] .
  have old: "obj (nodes (fst ?s) (nxt w0 + j)) = fst (xs ! j) \<and>
             priority (nodes (fst ?s) (nxt w0 + j)) = snd (xs ! j)" if "j < length xs" for j
    using IH[THEN conjunct2, THEN conjunct2, THEN conjunct1, rule_format, OF that] .
  have emp: "heap_min (snd ?s) = None" if "xs = []"
    using IH[THEN conjunct2, THEN conjunct2, THEN conjunct2, THEN conjunct1, rule_format, OF that] .
  have ne: "\<exists>m. heap_min (snd ?s) = Some m \<and> nxt w0 \<le> m \<and> m < nxt w0 + length xs \<and>
                (\<forall>j < length xs. priority (nodes (fst ?s) m) \<le> snd (xs ! j))" if "xs \<noteq> []"
    using IH[THEN conjunct2, THEN conjunct2, THEN conjunct2, THEN conjunct2, rule_format, OF that] .
  have s': "insert_all (w0, FibonacciHeap_init) (xs @ [xp]) = (w', h')"
    by (simp add: xp ins)
  have e: "e = nxt w0 + length xs" using eff(1) n by simp
  have stored: "obj (nodes w' (nxt w0 + j)) = fst ((xs @ [xp]) ! j) \<and>
                priority (nodes w' (nxt w0 + j)) = snd ((xs @ [xp]) ! j)"
    if "j < length (xs @ [xp])" for j
  proof (cases "j < length xs")
    case True
    then have "nxt w0 + j \<noteq> e" using e by simp
    with eff(5,6) old[OF True] True show ?thesis by (simp add: nth_append)
  next
    case False
    with that have "j = length xs" by simp
    with eff(3,4) e xp show ?thesis by (simp add: nth_append)
  qed
  have minp: "\<exists>m. heap_min h' = Some m \<and> nxt w0 \<le> m \<and> m < nxt w0 + length (xs @ [xp]) \<and>
                 (\<forall>j < length (xs @ [xp]). priority (nodes w' m) \<le> snd ((xs @ [xp]) ! j))"
  proof (cases "xs = []")
    case True
    with emp eff(8) have "heap_min h' = Some e" by simp
    with True e eff(4) xp show ?thesis by simp
  next
    case False
    from ne[OF False] obtain m where m: "heap_min (snd ?s) = Some m" "nxt w0 \<le> m"
      "m < nxt w0 + length xs" "\<And>j. j < length xs \<Longrightarrow> priority (nodes (fst ?s) m) \<le> snd (xs ! j)"
      by blast
    from m(3) e have me: "m \<noteq> e" by simp
    note hm = eff(9)[OF m(1) me]
    show ?thesis
    proof (cases "p < priority (nodes (fst ?s) m)")
      case True
      with hm have "heap_min h' = Some e" by simp
      moreover have "priority (nodes w' e) \<le> snd ((xs @ [xp]) ! j)" if "j < length (xs @ [xp])" for j
      proof (cases "j < length xs")
        case True
        with m(4)[OF True] \<open>p < priority (nodes (fst ?s) m)\<close> eff(4) show ?thesis
          by (simp add: nth_append)
      next
        case False
        with that have "j = length xs" by simp
        with eff(4) xp show ?thesis by (simp add: nth_append)
      qed
      ultimately show ?thesis using e by simp
    next
      case nless: False
      with hm have "heap_min h' = Some m" by simp
      moreover have pm: "priority (nodes w' m) = priority (nodes (fst ?s) m)"
        using eff(6)[OF me] .
      have "priority (nodes w' m) \<le> snd ((xs @ [xp]) ! j)" if "j < length (xs @ [xp])" for j
      proof (cases "j < length xs")
        case True
        with m(4)[OF True] pm show ?thesis by (simp add: nth_append)
      next
        case False
        with that have "j = length xs" by simp
        with nless pm xp show ?thesis by (simp add: nth_append)
      qed
      ultimately show ?thesis using m(2,3) by auto
    qed
  qed
  show ?case
    unfolding s'
    using eff(2,7) n sz stored minp by simp
qed


text \<open>
  C10. After any sequence of inserts into a new heap, \<^verbatim>\<open>min()\<close> (which only reads the heap
  object) returns an inserted element whose priority is the least of all inserted
  priorities; it returns \<^verbatim>\<open>None\<close> exactly when \<^verbatim>\<open>size()\<close> is 0; the size is the number of
  inserts and every inserted pair is in the store.
\<close>

theorem peek_min_after_inserts:
  fixes xs :: "('a \<times> prio) list" and w0 :: "'a world"
  shows "let s = insert_all (w0, FibonacciHeap_init) xs in
           size_heap (snd s) = int (length xs) \<and>
           (min_heap (snd s) = None \<longleftrightarrow> size_heap (snd s) = 0) \<and>
           inserted (fst s) (nxt w0) xs \<and>
           (xs \<noteq> [] \<longrightarrow>
              (\<exists>m. min_heap (snd s) = Some m \<and>
                   (obj (nodes (fst s) m), priority (nodes (fst s) m)) \<in> set xs \<and>
                   priority (nodes (fst s) m) = Min (snd ` set xs)))"
proof -
  let ?s = "insert_all (w0, FibonacciHeap_init) xs"
  note inv = insert_all_inv[of w0 xs]
  have sz: "heap_size (snd ?s) = int (length xs)"
    using inv[THEN conjunct2, THEN conjunct1] .
  have stored: "obj (nodes (fst ?s) (nxt w0 + j)) = fst (xs ! j) \<and>
                priority (nodes (fst ?s) (nxt w0 + j)) = snd (xs ! j)" if "j < length xs" for j
    using inv[THEN conjunct2, THEN conjunct2, THEN conjunct1, rule_format, OF that] .
  have emp: "heap_min (snd ?s) = None" if "xs = []"
    using inv[THEN conjunct2, THEN conjunct2, THEN conjunct2, THEN conjunct1, rule_format, OF that] .
  have ne: "\<exists>m. heap_min (snd ?s) = Some m \<and> nxt w0 \<le> m \<and> m < nxt w0 + length xs \<and>
                (\<forall>j < length xs. priority (nodes (fst ?s) m) \<le> snd (xs ! j))" if "xs \<noteq> []"
    using inv[THEN conjunct2, THEN conjunct2, THEN conjunct2, THEN conjunct2, rule_format, OF that] .
  have a: "size_heap (snd ?s) = int (length xs)"
    using sz by (simp add: size_heap_def)
  have b: "min_heap (snd ?s) = None \<longleftrightarrow> size_heap (snd ?s) = 0"
  proof (cases "xs = []")
    case True
    with emp a show ?thesis by (simp add: min_heap_def)
  next
    case False
    from ne[OF False] obtain m where "heap_min (snd ?s) = Some m" by blast
    with False a show ?thesis by (simp add: min_heap_def)
  qed
  have c: "inserted (fst ?s) (nxt w0) xs"
    unfolding inserted_def list_all_iff
  proof
    fix j assume "j \<in> set [0..<length xs]"
    then have "j < length xs" by simp
    from stored[OF this]
    show "(obj (nodes (fst ?s) (nxt w0 + j)), priority (nodes (fst ?s) (nxt w0 + j))) = xs ! j"
      by (simp add: prod_eq_iff)
  qed
  have d: "\<exists>m. min_heap (snd ?s) = Some m \<and>
             (obj (nodes (fst ?s) m), priority (nodes (fst ?s) m)) \<in> set xs \<and>
             priority (nodes (fst ?s) m) = Min (snd ` set xs)" if "xs \<noteq> []"
  proof -
    from ne[OF that] obtain m where m: "heap_min (snd ?s) = Some m" "nxt w0 \<le> m"
      "m < nxt w0 + length xs"
      and le: "\<And>j. j < length xs \<Longrightarrow> priority (nodes (fst ?s) m) \<le> snd (xs ! j)"
      by blast
    define j where "j = m - nxt w0"
    have j: "j < length xs" "m = nxt w0 + j" using m(2,3) by (simp_all add: j_def)
    from stored[OF j(1)] j(2)
    have eq: "(obj (nodes (fst ?s) m), priority (nodes (fst ?s) m)) = xs ! j"
      by (simp add: prod_eq_iff)
    then have mem: "(obj (nodes (fst ?s) m), priority (nodes (fst ?s) m)) \<in> set xs"
      using j(1) by (metis nth_mem)
    have "Min (snd ` set xs) = priority (nodes (fst ?s) m)"
    proof (rule Min_eqI)
      show "finite (snd ` set xs)" by simp
      show "priority (nodes (fst ?s) m) \<in> snd ` set xs"
        using mem by force
      fix y assume "y \<in> snd ` set xs"
      then obtain k where "k < length xs" "y = snd (xs ! k)"
        by (auto simp: in_set_conv_nth)
      with le show "priority (nodes (fst ?s) m) \<le> y" by simp
    qed
    with m(1) mem show ?thesis by (simp add: min_heap_def)
  qed
  show ?thesis
    unfolding Let_def using a b c d by blast
qed

lemma scenario_inserts_state:
  "insert_all (mk_world [], FibonacciHeap_init) scenario_inserts =
     (mk_world
        [\<lparr>obj = ''A'', priority = Num 5, left = 2, right = 1, child = None, parent = None,
           degree = 0, mark = False\<rparr>,
         \<lparr>obj = ''B'', priority = Num 3, left = 0, right = 2, child = None, parent = None,
           degree = 0, mark = False\<rparr>,
         \<lparr>obj = ''C'', priority = Num 8, left = 1, right = 0, child = None, parent = None,
           degree = 0, mark = False\<rparr>],
      \<lparr>heap_size = 3, heap_min = Some 1\<rparr>)"
  by (simp add: insert_all_def scenario_inserts_def eval_defs eval_nat_numeral)

theorem peek_min_after_inserts_witness:
  "scenario_inserts \<noteq> [] \<and>
   size_heap (snd (insert_all (mk_world [], FibonacciHeap_init) scenario_inserts)) = 3 \<and>
   min_heap (snd (insert_all (mk_world [], FibonacciHeap_init) scenario_inserts)) = Some 1 \<and>
   (obj (nodes (fst (insert_all (mk_world [], FibonacciHeap_init) scenario_inserts)) 1),
    priority (nodes (fst (insert_all (mk_world [], FibonacciHeap_init) scenario_inserts)) 1))
     = (''B'', Min (snd ` set scenario_inserts))"
proof -
  have ne: "scenario_inserts \<noteq> []" by (simp add: scenario_inserts_def)
  have m: "min_heap (snd (insert_all (mk_world [], FibonacciHeap_init) scenario_inserts)) = Some 1"
    by (simp add: scenario_inserts_state min_heap_def)
  have o: "obj (nodes (fst (insert_all (mk_world [], FibonacciHeap_init) scenario_inserts)) 1) = ''B''"
    by (simp add: scenario_inserts_state)
  have len: "length scenario_inserts = 3" by (simp add: scenario_inserts_def)
  from peek_min_after_inserts[of "mk_world []" scenario_inserts] ne m o len
  show ?thesis by (auto simp: Let_def)
qed


section \<open>decrease_key\<close>

lemma decrease_key_rejects:
  assumes "priority (nodes (fst s) x) \<le> p"
  shows "decrease_key s x p =
           Some (Inl (if p = NegInf \<or> priority (nodes (fst s) x) = NegInf
                      then FormatError else ValueError, s))"
  using assms by (simp add: decrease_key_def)

lemma cut_heap_min:
  assumes "cut_heap a u v = Inr b" "heap_min (snd a) \<noteq> None"
  shows "heap_min (snd b) \<noteq> None"
  using assms
  by (auto simp: cut_heap_def insert_to_root_list_def Let_def
      split: if_splits option.splits prod.splits)

lemma cut_heap_no_error:
  assumes "parent (nodes (fst a) u) = Some v"
  shows "cut_heap a u v \<noteq> Inl err"
  using assms by (auto simp: cut_heap_def Let_def split: if_splits prod.splits)

lemma cascading_cut_no_error:
  assumes major: "cascading_cut a0 y0 = Some r0"
  shows "heap_min (snd a0) \<noteq> None \<longrightarrow>
        (case r0 of Inl u \<Rightarrow> False | Inr b \<Rightarrow> heap_min (snd b) \<noteq> None)"
proof (rule cascading_cut.raw_induct
    [where P = "\<lambda>a y r. heap_min (snd a) \<noteq> None \<longrightarrow>
        (case r of Inl u \<Rightarrow> False | Inr b \<Rightarrow> heap_min (snd b) \<noteq> None)",
      OF _ major],
    goal_cases)
  case (1 f a y r)
  show ?case
  proof
    assume hn: "heap_min (snd a) \<noteq> None"
    show "case r of Inl u \<Rightarrow> False | Inr b \<Rightarrow> heap_min (snd b) \<noteq> None"
    proof (cases "parent (nodes (fst a) y)")
      case None
      with 1(2) hn show ?thesis by auto
    next
      case (Some z)
      show ?thesis
      proof (cases "mark (nodes (fst a) y)")
        case False
        with Some 1(2) hn show ?thesis by auto
      next
        case True
        show ?thesis
        proof (cases "cut_heap a y z")
          case (Inl err)
          with cut_heap_no_error[OF Some, of err] show ?thesis by simp
        next
          case (Inr b)
          with Some True 1(2) have "f b z = Some r" by simp
          from 1(1)[OF this] cut_heap_min[OF Inr hn] show ?thesis by simp
        qed
      qed
    qed
  qed
qed

lemma decrease_key_cut_no_error:
  assumes "decrease_key_cut s x = Some r" "heap_min (snd s) \<noteq> None"
  shows "case r of Inl u \<Rightarrow> False | Inr b \<Rightarrow> heap_min (snd b) \<noteq> None"
proof (cases "parent (nodes (fst s) x)")
  case None
  with assms show ?thesis by (auto simp: decrease_key_cut_def)
next
  case (Some y)
  show ?thesis
  proof (cases "priority (nodes (fst s) x) < priority (nodes (fst s) y)")
    case False
    with Some assms show ?thesis by (auto simp: decrease_key_cut_def)
  next
    case True
    show ?thesis
    proof (cases "cut_heap s x y")
      case (Inl err)
      with cut_heap_no_error[OF Some, of err] show ?thesis by simp
    next
      case (Inr s2)
      with True Some assms have "cascading_cut s2 y = Some r" by (simp add: decrease_key_cut_def)
      from cascading_cut_no_error[OF this] cut_heap_min[OF Inr assms(2)] show ?thesis by simp
    qed
  qed
qed

lemma decrease_key_error_unchanged:
  assumes "decrease_key s x p = Some (Inl (e, s'))" "heap_min (snd s) \<noteq> None"
  shows "priority (nodes (fst s) x) \<le> p \<and> s' = s"
proof (cases "priority (nodes (fst s) x) \<le> p")
  case True
  with assms(1) show ?thesis by (simp add: decrease_key_def split: if_splits)
next
  case False
  let ?s1 = "(set_priority (fst s) x p, snd s)"
  from False assms(1) obtain r1 where r1: "decrease_key_cut ?s1 x = Some r1"
    by (auto simp: decrease_key_def split: option.splits)
  from decrease_key_cut_no_error[OF r1] assms(2) obtain s3 where
    s3: "r1 = Inr s3" "heap_min (snd s3) \<noteq> None"
    by (cases r1) auto
  with False assms(1) r1 have "update_min s3 x = Inl (e, s')" by (simp add: decrease_key_def)
  with s3(2) show ?thesis by (auto simp: update_min_def split: option.splits if_splits)
qed

lemma sunk_state_eq:
  "sunk_state =
     (mk_world [\<lparr>obj = ''a'', priority = NegInf, left = 0, right = 0, child = None,
                  parent = None, degree = 0, mark = False\<rparr>],
      \<lparr>heap_size = 1, heap_min = Some 0\<rparr>)"
  by (simp add: sunk_state_def final_state_def eval_defs)

text \<open>
  C4. \<^verbatim>\<open>decrease_key\<close> rejects a priority that is not strictly smaller and leaves the
  heap as it is (\<open>decrease_key_rejects\<close>, \<open>decrease_key_error_unchanged\<close>), and its docstring
  promises a ValueError. When the element's priority is \<^verbatim>\<open>-np.inf\<close> the \<^verbatim>\<open>%d\<close> conversion
  of the message fails first, so the caller gets another exception: here for the element
  whose key was decreased to \<^verbatim>\<open>-np.inf\<close> and a second \<^verbatim>\<open>decrease_key(h, -np.inf)\<close>.
\<close>

theorem decrease_key_wrong_exception:
  "priority (nodes (fst sunk_state) 0) \<le> NegInf \<and>
   decrease_key sunk_state 0 NegInf = Some (Inl (FormatError, sunk_state)) \<and>
   decrease_key sunk_state 0 NegInf \<noteq> Some (Inl (ValueError, sunk_state))"
  by (simp add: sunk_state_eq eval_defs)

end
